theory Spec2Isabelle
  imports Complex_Main
begin

section \<open>Numbers, errors and library functions\<close>

text \<open>
  The predictors of \<^verbatim>\<open>orbit_predictor/predictors/keplerian.py\<close> and
  \<^verbatim>\<open>numerical.py\<close> compute with Python floats. They are modelled over the real
  numbers: rounding, overflow and signed zeros are not modelled. What the code does when an
  operation has no real result is modelled as an error value: Python's float division and
  \<^verbatim>\<open>math.sqrt\<close> raise, NumPy's functions raise \<^verbatim>\<open>FloatingPointError\<close>
  inside \<^verbatim>\<open>np.errstate(invalid="raise")\<close> where IEEE arithmetic would produce
  a NaN, and a NumPy division of a nonzero number by zero gives an infinity.
\<close>

datatype error =
    ValueError string
  | ZeroDivisionError
  | FloatingPointError
  | InvalidOrbitError
  | NotImplementedError
  | OutOfModel string
    \<comment> \<open>the code goes on with a value that is not a real number (a Python complex number,
        an IEEE infinity stored in a predictor); the model does not follow it\<close>

definition andthen :: "error + 'a \<Rightarrow> ('a \<Rightarrow> error + 'b) \<Rightarrow> error + 'b" where
  "andthen m f = (case m of Inl e \<Rightarrow> Inl e | Inr v \<Rightarrow> f v)"

text \<open>\<^verbatim>\<open>math.radians\<close>, \<^verbatim>\<open>math.degrees\<close>, \<^verbatim>\<open>math.sqrt\<close> and
  Python's float division.\<close>

definition radians :: "real \<Rightarrow> real" where
  "radians x = x * pi / 180"

definition degrees :: "real \<Rightarrow> real" where
  "degrees x = x * 180 / pi"

definition math_sqrt :: "real \<Rightarrow> error + real" where
  "math_sqrt x = (if x < 0 then Inl (ValueError ''math domain error'') else Inr (sqrt x))"

definition py_div :: "real \<Rightarrow> real \<Rightarrow> error + real" where
  "py_div x y = (if y = 0 then Inl ZeroDivisionError else Inr (x / y))"

text \<open>Python's \<^verbatim>\<open>x ** a\<close> on floats with a fractional exponent \<open>a > 0\<close>: a negative
  base gives a complex number.\<close>

definition py_pow :: "real \<Rightarrow> real \<Rightarrow> error + real" where
  "py_pow x a = (if x < 0 then Inl (OutOfModel ''complex'') else Inr (x powr a))"

text \<open>
  NumPy scalars inside \<^verbatim>\<open>np.errstate(invalid="raise")\<close>: a value is a finite number or
  an infinity; an operation that would give a NaN raises \<^verbatim>\<open>FloatingPointError\<close>.
  Division by zero is not trapped (only \<^verbatim>\<open>invalid\<close> is), so it gives an infinity,
  unless the numerator is zero too.
\<close>

datatype np_float = Finite real | PosInf | NegInf

definition np_divide :: "real \<Rightarrow> real \<Rightarrow> error + np_float" where
  "np_divide x y =
     (if y \<noteq> 0 then Inr (Finite (x / y))
      else if x = 0 then Inl FloatingPointError
      else if 0 < x then Inr PosInf else Inr NegInf)"

fun np_sqrt :: "np_float \<Rightarrow> error + np_float" where
  "np_sqrt (Finite x) = (if x < 0 then Inl FloatingPointError else Inr (Finite (sqrt x)))"
| "np_sqrt PosInf = Inr PosInf"
| "np_sqrt NegInf = Inl FloatingPointError"

fun np_arccos :: "np_float \<Rightarrow> error + real" where
  "np_arccos (Finite x) = (if \<bar>x\<bar> > 1 then Inl FloatingPointError else Inr (arccos x))"
| "np_arccos PosInf = Inl FloatingPointError"
| "np_arccos NegInf = Inl FloatingPointError"

fun np_rsub :: "real \<Rightarrow> np_float \<Rightarrow> np_float" where
  "np_rsub c (Finite x) = Finite (c - x)"
| "np_rsub c PosInf = NegInf"
| "np_rsub c NegInf = PosInf"

text \<open>\<^verbatim>\<open>x ** a\<close> on a NumPy scalar with a fractional exponent \<open>a > 0\<close>.\<close>

fun np_power :: "np_float \<Rightarrow> real \<Rightarrow> error + np_float" where
  "np_power (Finite x) a = (if x < 0 then Inl FloatingPointError else Inr (Finite (x powr a)))"
| "np_power PosInf a = Inr PosInf"
| "np_power NegInf a = Inr PosInf"

section \<open>Dates and times\<close>

text \<open>\<^verbatim>\<open>datetime.date\<close> and \<^verbatim>\<open>datetime.datetime\<close> of the standard library, as far
  as the predictors use them: the constructor's range check on the time of day, and the
  signed number of seconds between two instants.\<close>

record date =
  year :: int
  month :: int
  day :: int

record datetime = date +
  hour :: int
  minute :: int
  second :: int
  microsecond :: int

definition dt_datetime :: "int \<Rightarrow> int \<Rightarrow> int \<Rightarrow> int \<times> int \<times> int \<Rightarrow> error + datetime" where
  "dt_datetime y m d hms =
     (case hms of (h, mi, s) \<Rightarrow>
        if \<not> (0 \<le> h \<and> h < 24) then Inl (ValueError ''hour must be in 0..23'')
        else if \<not> (0 \<le> mi \<and> mi < 60) then Inl (ValueError ''minute must be in 0..59'')
        else if \<not> (0 \<le> s \<and> s < 60) then Inl (ValueError ''second must be in 0..59'')
        else Inr \<lparr>year = y, month = m, day = d,
                  hour = h, minute = mi, second = s, microsecond = 0\<rparr>)"

definition is_leap :: "int \<Rightarrow> bool" where
  "is_leap y \<longleftrightarrow> y mod 4 = 0 \<and> (y mod 100 \<noteq> 0 \<or> y mod 400 = 0)"

definition days_before_year :: "int \<Rightarrow> int" where
  "days_before_year y = (y - 1) * 365 + (y - 1) div 4 - (y - 1) div 100 + (y - 1) div 400"

definition days_before_month :: "int \<Rightarrow> int \<Rightarrow> int" where
  "days_before_month y m =
     [0, 31, 59, 90, 120, 151, 181, 212, 243, 273, 304, 334] ! nat (m - 1)
     + (if m > 2 \<and> is_leap y then 1 else 0)"

definition toordinal :: "'a date_scheme \<Rightarrow> int" where
  "toordinal d = days_before_year (year d) + days_before_month (year d) (month d) + day d"

definition microseconds_of :: "datetime \<Rightarrow> int" where
  "microseconds_of t =
     (((toordinal t * 24 + hour t) * 60 + minute t) * 60 + second t) * 1000000 + microsecond t"

text \<open>\<^verbatim>\<open>(a - b).total_seconds()\<close>\<close>

definition total_seconds_between :: "datetime \<Rightarrow> datetime \<Rightarrow> real" where
  "total_seconds_between a b = real_of_int (microseconds_of a - microseconds_of b) / 1000000"

section \<open>Module-level names\<close>

text \<open>
  The functions take no gravity or collaborator arguments: they read names bound at module
  level. These names are the first argument \<open>env\<close> of every function of the model; the
  arguments after it are the arguments of the Python call.
  \<^item> \<^verbatim>\<open>wgs84\<close> is imported from the external package \<^verbatim>\<open>sgp4.earth_gravity\<close>;
    its fields are a parameter.
  \<^item> \<^verbatim>\<open>ta_to_M\<close>, \<^verbatim>\<open>M_to_ta\<close> (\<^verbatim>\<open>orbit_predictor.angles\<close>),
    \<^verbatim>\<open>coe2rv\<close> (\<^verbatim>\<open>orbit_predictor.keplerian\<close>), \<^verbatim>\<open>raan_from_ltan\<close> and
    \<^verbatim>\<open>float_to_hms\<close> (\<^verbatim>\<open>orbit_predictor.utils\<close>) are imported collaborators,
    taken as parameters and assumed to return.
  \<^item> \<^verbatim>\<open>today\<close> is what \<^verbatim>\<open>dt.datetime.today().date()\<close> reads.
\<close>

record gravity =
  mu :: real
  radiusearthkm :: real
  j2 :: real

type_synonym vec3 = "real \<times> real \<times> real"

record env =
  wgs84 :: gravity
  ta_to_M :: "real \<Rightarrow> real \<Rightarrow> real"
  M_to_ta :: "real \<Rightarrow> real \<Rightarrow> real"
  coe2rv :: "real \<Rightarrow> real \<Rightarrow> real \<Rightarrow> real \<Rightarrow> real \<Rightarrow> real \<Rightarrow> real \<Rightarrow> vec3 \<times> vec3"
  raan_from_ltan :: "datetime \<Rightarrow> real \<Rightarrow> real"
  float_to_hms :: "real \<Rightarrow> int \<times> int \<times> int"
  today :: date

definition OMEGA :: real where
  "OMEGA = 2 * pi / (86400 * 365.2421897)"

definition MU_E :: "env \<Rightarrow> real" where
  "MU_E env = mu (wgs84 env)"

definition R_E_KM :: "env \<Rightarrow> real" where
  "R_E_KM env = radiusearthkm (wgs84 env)"

definition J2 :: "env \<Rightarrow> real" where
  "J2 env = j2 (wgs84 env)"

section \<open>Predictors\<close>

datatype predictor_class = KeplerianPredictor | J2Predictor

text \<open>An instance with its class and its attributes \<^verbatim>\<open>self._sma\<close>, ...,
  \<^verbatim>\<open>self._epoch\<close>.\<close>

record predictor =
  self_class :: predictor_class
  self_sma :: real
  self_ecc :: real
  self_inc :: real
  self_raan :: real
  self_argp :: real
  self_ta :: real
  self_epoch :: datetime

text \<open>\<^verbatim>\<open>KeplerianPredictor.__init__\<close>, inherited by \<^verbatim>\<open>J2Predictor\<close>.\<close>

definition init :: "predictor_class \<Rightarrow> real \<Rightarrow> real \<Rightarrow> real \<Rightarrow> real \<Rightarrow> real \<Rightarrow> real \<Rightarrow> datetime
    \<Rightarrow> error + predictor" where
  "init c sma ecc inc raan argp ta epoch =
     (if ecc \<ge> 1.0 then Inl NotImplementedError
      else Inr \<lparr>self_class = c, self_sma = sma, self_ecc = ecc, self_inc = inc,
                self_raan = raan, self_argp = argp, self_ta = ta, self_epoch = epoch\<rparr>)"

section \<open>Keplerian propagation\<close>

definition kepler :: "env \<Rightarrow> real \<Rightarrow> real \<Rightarrow> real \<Rightarrow> real \<Rightarrow> real \<Rightarrow> real \<Rightarrow> real \<Rightarrow> real
    \<Rightarrow> error + vec3 \<times> vec3" where
  "kepler env argp delta_t_sec ecc inc p raan sma ta =
     (let M_0 = ta_to_M env ta ecc in
      andthen (py_div (mu (wgs84 env)) (sma ^ 3)) (\<lambda>q.
      andthen (math_sqrt q) (\<lambda>n.
      let M = M_0 + n * delta_t_sec;
          ta = M_to_ta env M ecc
      in Inr (coe2rv env (MU_E env) p ecc inc raan argp ta))))"

text \<open>\<^verbatim>\<open>KeplerianPredictor._propagate_eci\<close>. The instance is passed through the call
  and returned with the result, so that what the method does to it is part of the model.\<close>

definition Keplerian_propagate_eci :: "env \<Rightarrow> predictor \<Rightarrow> datetime
    \<Rightarrow> predictor \<times> (error + vec3 \<times> vec3)" where
  "Keplerian_propagate_eci env self when_utc =
     (let sma = self_sma self;
          ecc = self_ecc self;
          p = sma * (1 - ecc ^ 2);
          inc = radians (self_inc self);
          raan = radians (self_raan self);
          argp = radians (self_argp self);
          ta = radians (self_ta self);
          delta_t_sec = total_seconds_between when_utc (self_epoch self)
      in (self, kepler env argp delta_t_sec ecc inc p raan sma ta))"

section \<open>Propagation with the secular effect of J2\<close>

text \<open>The local values of \<^verbatim>\<open>pkepler\<close>: the mean motion \<open>n\<close>, \<^verbatim>\<open>delta_raan\<close>,
  \<^verbatim>\<open>delta_argp\<close> and \<^verbatim>\<open>M0_dot\<close>.\<close>

definition pkepler_n :: "env \<Rightarrow> real \<Rightarrow> error + real" where
  "pkepler_n env sma = andthen (py_div (MU_E env) (sma ^ 3)) math_sqrt"

definition pkepler_delta_raan :: "env \<Rightarrow> real \<Rightarrow> real \<Rightarrow> real \<Rightarrow> real \<Rightarrow> error + real" where
  "pkepler_delta_raan env n p inc delta_t_sec =
     andthen (py_div (- (3 * n * R_E_KM env ^ 2 * J2 env)) (2 * p ^ 2)) (\<lambda>c.
     Inr (c * cos inc * delta_t_sec))"

definition pkepler_delta_argp :: "env \<Rightarrow> real \<Rightarrow> real \<Rightarrow> real \<Rightarrow> real \<Rightarrow> error + real" where
  "pkepler_delta_argp env n p inc delta_t_sec =
     andthen (py_div (3 * n * R_E_KM env ^ 2 * J2 env) (4 * p ^ 2)) (\<lambda>c.
     Inr (c * (4 - 5 * sin inc ^ 2) * delta_t_sec))"

definition pkepler_M0_dot :: "env \<Rightarrow> real \<Rightarrow> real \<Rightarrow> real \<Rightarrow> real \<Rightarrow> error + real" where
  "pkepler_M0_dot env n p inc ecc =
     andthen (py_div (3 * n * R_E_KM env ^ 2 * J2 env) (4 * p ^ 2)) (\<lambda>c.
     andthen (math_sqrt (1 - ecc ^ 2)) (\<lambda>s.
     Inr (c * (2 - 3 * sin inc ^ 2) * s)))"

definition pkepler :: "env \<Rightarrow> real \<Rightarrow> real \<Rightarrow> real \<Rightarrow> real \<Rightarrow> real \<Rightarrow> real \<Rightarrow> real \<Rightarrow> real
    \<Rightarrow> error + vec3 \<times> vec3" where
  "pkepler env argp delta_t_sec ecc inc p raan sma ta =
     andthen (pkepler_n env sma) (\<lambda>n.
     let M_0 = ta_to_M env ta ecc in
     andthen (pkepler_delta_raan env n p inc delta_t_sec) (\<lambda>delta_raan.
     let raan = raan + delta_raan in
     andthen (pkepler_delta_argp env n p inc delta_t_sec) (\<lambda>delta_argp.
     let argp = argp + delta_argp in
     andthen (pkepler_M0_dot env n p inc ecc) (\<lambda>M0_dot.
     let M_dot = n + M0_dot;
         M = M_0 + M_dot * delta_t_sec;
         ta = M_to_ta env M ecc
     in Inr (coe2rv env (MU_E env) p ecc inc raan argp ta)))))"

text \<open>\<^verbatim>\<open>J2Predictor._propagate_eci\<close>\<close>

definition J2_propagate_eci :: "env \<Rightarrow> predictor \<Rightarrow> datetime
    \<Rightarrow> predictor \<times> (error + vec3 \<times> vec3)" where
  "J2_propagate_eci env self when_utc =
     (let sma = self_sma self;
          ecc = self_ecc self;
          p = sma * (1 - ecc ^ 2);
          inc = radians (self_inc self);
          raan = radians (self_raan self);
          argp = radians (self_argp self);
          ta = radians (self_ta self);
          delta_t_sec = total_seconds_between when_utc (self_epoch self)
      in (self, pkepler env argp delta_t_sec ecc inc p raan sma ta))"

text \<open>The method call \<^verbatim>\<open>self._propagate_eci(when_utc)\<close> dispatches on the class.\<close>

definition propagate_eci :: "env \<Rightarrow> predictor \<Rightarrow> datetime \<Rightarrow> predictor \<times> (error + vec3 \<times> vec3)" where
  "propagate_eci env self when_utc =
     (case self_class self of
        KeplerianPredictor \<Rightarrow> Keplerian_propagate_eci env self when_utc
      | J2Predictor \<Rightarrow> J2_propagate_eci env self when_utc)"

section \<open>Sun-synchronous orbits\<close>

text \<open>The body of the \<^verbatim>\<open>try\<close> block of \<^verbatim>\<open>J2Predictor.sun_synchronous\<close>: the
  semi-major axis, the eccentricity and the inclination in degrees.\<close>

definition np_sqrt_f :: "real \<Rightarrow> error + real" where
  "np_sqrt_f x = (if x < 0 then Inl FloatingPointError else Inr (sqrt x))"

fun np_real :: "np_float \<Rightarrow> error + real" where
  "np_real (Finite x) = Inr x"
| "np_real PosInf = Inl (OutOfModel ''inf'')"
| "np_real NegInf = Inl (OutOfModel ''-inf'')"

fun sun_synchronous_try :: "env \<Rightarrow> real option \<Rightarrow> real option \<Rightarrow> real option
    \<Rightarrow> error + np_float \<times> real \<times> real" where
  "sun_synchronous_try env (Some alt_km) (Some ecc) inc_deg =
     (let sma = R_E_KM env + alt_km in
      andthen (py_pow sma (7 / 2)) (\<lambda>pw.
      andthen (np_sqrt_f (MU_E env)) (\<lambda>s.
      andthen (np_divide (- 2 * pw * OMEGA * (1 - ecc ^ 2) ^ 2)
                         (3 * R_E_KM env ^ 2 * J2 env * s)) (\<lambda>x.
      andthen (np_arccos x) (\<lambda>a.
      Inr (Finite sma, ecc, degrees a))))))"
| "sun_synchronous_try env (Some alt_km) None (Some inc_deg) =
     (let sma = R_E_KM env + alt_km in
      andthen (np_sqrt_f (MU_E env)) (\<lambda>s.
      andthen (py_pow sma (7 / 2)) (\<lambda>pw.
      andthen (np_divide (- 3 * R_E_KM env ^ 2 * J2 env * s * cos (radians inc_deg))
                         (2 * OMEGA * pw)) (\<lambda>y.
      andthen (np_sqrt y) (\<lambda>r.
      andthen (np_sqrt (np_rsub 1 r)) (\<lambda>e.
      andthen (np_real e) (\<lambda>ecc.
      Inr (Finite sma, ecc, inc_deg))))))))"
| "sun_synchronous_try env None (Some ecc) (Some inc_deg) =
     andthen (np_sqrt_f (MU_E env)) (\<lambda>s.
     andthen (np_divide (- cos (radians inc_deg) * (3 * R_E_KM env ^ 2 * J2 env * s))
                        (2 * OMEGA * (1 - ecc ^ 2) ^ 2)) (\<lambda>b.
     andthen (np_power b (2 / 7)) (\<lambda>sma.
     Inr (sma, ecc, inc_deg))))"
| "sun_synchronous_try env _ _ _ =
     Inl (ValueError ''Exactly two of altitude, eccentricity and inclination must be given'')"

text \<open>\<^verbatim>\<open>J2Predictor.sun_synchronous\<close>. The keyword arguments \<^verbatim>\<open>alt_km\<close>,
  \<^verbatim>\<open>ecc\<close>, \<^verbatim>\<open>inc_deg\<close> and \<^verbatim>\<open>date\<close> are \<open>None\<close> when not given; the caller
  passes 12 and 0 for \<^verbatim>\<open>ltan_h\<close> and \<^verbatim>\<open>ta_deg\<close> to get their defaults. A predictor
  cannot hold an infinite semi-major axis in the model: the constructor's check runs, and
  if it passes the outcome is \<open>OutOfModel\<close>.\<close>

definition sun_synchronous :: "env \<Rightarrow> real option \<Rightarrow> real option \<Rightarrow> real option \<Rightarrow> real
    \<Rightarrow> date option \<Rightarrow> real \<Rightarrow> error + predictor" where
  "sun_synchronous env alt_km ecc inc_deg ltan_h date ta_deg =
     (let date = (case date of None \<Rightarrow> today env | Some d \<Rightarrow> d) in
      case sun_synchronous_try env alt_km ecc inc_deg of
        Inl FloatingPointError \<Rightarrow> Inl InvalidOrbitError
      | Inl e \<Rightarrow> Inl e
      | Inr (sma, ecc, inc_deg) \<Rightarrow>
          andthen (dt_datetime (year date) (month date) (day date) (float_to_hms env ltan_h))
            (\<lambda>epoch.
          let raan = raan_from_ltan env epoch ltan_h in
          case sma of
            Finite sma \<Rightarrow> init J2Predictor sma ecc inc_deg raan 0 ta_deg epoch
          | _ \<Rightarrow> if ecc \<ge> 1.0 then Inl NotImplementedError
                 else Inl (OutOfModel ''infinite semi-major axis'')))"

section \<open>Constellations\<close>

text \<open>\<^verbatim>\<open>np.linspace(start, stop, num, endpoint=False)\<close>\<close>

definition np_linspace :: "real \<Rightarrow> real \<Rightarrow> nat \<Rightarrow> real list" where
  "np_linspace start stop num =
     map (\<lambda>i. start + real i * ((stop - start) / real num)) [0..<num]"

text \<open>A generator that yields \<open>f x\<close> for each \<open>x\<close> of a list, consumed to its end: the
  values yielded, and the exception that ended it, if any.\<close>

fun generate :: "('a \<Rightarrow> error + 'b) \<Rightarrow> 'a list \<Rightarrow> 'b list \<times> error option" where
  "generate f [] = ([], None)"
| "generate f (x # xs) =
     (case f x of
        Inl e \<Rightarrow> ([], Some e)
      | Inr y \<Rightarrow> (case generate f xs of (ys, r) \<Rightarrow> (y # ys, r)))"

definition sun_sync_plane_constellation :: "env \<Rightarrow> nat \<Rightarrow> real option \<Rightarrow> real option
    \<Rightarrow> real option \<Rightarrow> real \<Rightarrow> date option \<Rightarrow> predictor list \<times> error option" where
  "sun_sync_plane_constellation env num_satellites alt_km ecc inc_deg ltan_h date =
     generate (\<lambda>ta_deg. sun_synchronous env alt_km ecc inc_deg ltan_h date ta_deg)
       (np_linspace 0 360 num_satellites)"

section \<open>The nodal regression rate\<close>

text \<open>The drift of the right ascension of the ascending node per second of a predictor's
  orbit: \<^verbatim>\<open>delta_raan\<close> of \<^verbatim>\<open>pkepler\<close> for \<^verbatim>\<open>delta_t_sec = 1\<close>, with the
  arguments \<^verbatim>\<open>J2Predictor._propagate_eci\<close> passes.\<close>

definition nodal_regression_rate :: "env \<Rightarrow> predictor \<Rightarrow> error + real" where
  "nodal_regression_rate env self =
     (let sma = self_sma self;
          ecc = self_ecc self;
          p = sma * (1 - ecc ^ 2);
          inc = radians (self_inc self)
      in andthen (pkepler_n env sma) (\<lambda>n. pkepler_delta_raan env n p inc 1))"

section \<open>Sample inputs\<close>

text \<open>
  Concrete inputs for the worked examples below. The gravity constants are those of
  \<^verbatim>\<open>sgp4.earth_gravity.wgs84\<close>.
\<close>

definition wgs84_sgp4 :: gravity where
  "wgs84_sgp4 = \<lparr>mu = 398600.5, radiusearthkm = 6378.137, j2 = 0.00108262998905\<rparr>"

text \<open>
  Modelled from the spec: \<^verbatim>\<open>coe2rv\<close> of \<^verbatim>\<open>orbit_predictor.keplerian\<close> is not among
  the sources. Section 4.2 of the specification describes it (\<open>elementsToState\<close>) as the
  position and velocity in the perifocal frame from the semi-latus rectum, rotated by the
  argument of perigee about the orbit normal, by the inclination about the line of nodes and
  by the right ascension of the ascending node about the polar axis (3-1-3). It is the
  state conversion of the sample environment only; the properties below hold for every
  state conversion.
\<close>

definition rot_z :: "real \<Rightarrow> vec3 \<Rightarrow> vec3" where
  "rot_z a v = (case v of (x, y, z) \<Rightarrow> (x * cos a - y * sin a, x * sin a + y * cos a, z))"

definition rot_x :: "real \<Rightarrow> vec3 \<Rightarrow> vec3" where
  "rot_x a v = (case v of (x, y, z) \<Rightarrow> (x, y * cos a - z * sin a, y * sin a + z * cos a))"

definition elementsToState :: "real \<Rightarrow> real \<Rightarrow> real \<Rightarrow> real \<Rightarrow> real \<Rightarrow> real \<Rightarrow> real
    \<Rightarrow> vec3 \<times> vec3" where
  "elementsToState k p ecc inc raan argp nu =
     (let r_pqw = (p * cos nu / (1 + ecc * cos nu), p * sin nu / (1 + ecc * cos nu), 0);
          v_pqw = (- sqrt (k / p) * sin nu, sqrt (k / p) * (ecc + cos nu), 0);
          to_eci = (\<lambda>v. rot_z raan (rot_x inc (rot_z argp v)))
      in (to_eci r_pqw, to_eci v_pqw))"

text \<open>
  The other collaborators of the sample environment are stand-ins: the anomaly conversions
  are those of a circular orbit, where the three anomalies coincide; the hours, minutes and
  seconds of a time of day in hours; a right ascension of 15 degrees per hour from noon;
  and a fixed current date.
\<close>

definition sample_float_to_hms :: "real \<Rightarrow> int \<times> int \<times> int" where
  "sample_float_to_hms hf = (\<lfloor>hf\<rfloor>, \<lfloor>frac hf * 60\<rfloor>, \<lfloor>frac (frac hf * 60) * 60\<rfloor>)"

definition sample_env :: env where
  "sample_env =
     \<lparr>wgs84 = wgs84_sgp4,
      ta_to_M = (\<lambda>ta ecc. ta),
      M_to_ta = (\<lambda>M ecc. M),
      coe2rv = elementsToState,
      raan_from_ltan = (\<lambda>epoch ltan. 15 * (ltan - 12)),
      float_to_hms = sample_float_to_hms,
      today = \<lparr>year = 2020, month = 3, day = 20\<rparr>\<rparr>"

definition sample_epoch :: datetime where
  "sample_epoch = \<lparr>year = 2020, month = 3, day = 20,
                    hour = 12, minute = 0, second = 0, microsecond = 0\<rparr>"

text \<open>The argument of \<^verbatim>\<open>np.arccos\<close> for an altitude of 600 km and a circular orbit, and
  the predictor \<^verbatim>\<open>sun_synchronous(alt_km=600, ecc=0, ta_deg=ta_deg)\<close> returns in the
  sample environment.\<close>

definition sample_x :: real where
  "sample_x = (- 2 * (6378.137 + 600) powr (7 / 2) * OMEGA * (1 - 0 ^ 2) ^ 2)
                / (3 * 6378.137 ^ 2 * 0.00108262998905 * sqrt 398600.5)"

definition sample_predictor :: "real \<Rightarrow> predictor" where
  "sample_predictor ta_deg =
     \<lparr>self_class = J2Predictor, self_sma = 6978.137, self_ecc = 0,
      self_inc = degrees (arccos sample_x), self_raan = 0, self_argp = 0,
      self_ta = ta_deg, self_epoch = sample_epoch\<rparr>"

text \<open>The scenario of the specification: a circular orbit of 7000 km at 45 degrees.\<close>

definition sample_keplerian :: predictor where
  "sample_keplerian =
     \<lparr>self_class = KeplerianPredictor, self_sma = 7000, self_ecc = 0, self_inc = 45,
      self_raan = 0, self_argp = 0, self_ta = 0, self_epoch = sample_epoch\<rparr>"

text \<open>The sample environment with two other bindings of the module-level \<^verbatim>\<open>wgs84\<close>:
  a gravitational parameter four times as large, and a spherical Earth.\<close>

definition alternate_env :: env where
  "alternate_env = sample_env\<lparr>wgs84 := wgs84_sgp4\<lparr>mu := 4 * 398600.5\<rparr>\<rparr>"

definition spherical_env :: env where
  "spherical_env = sample_env\<lparr>wgs84 := wgs84_sgp4\<lparr>j2 := 0\<rparr>\<rparr>"


section \<open>The arguments of the closed forms\<close>




section \<open>Basic facts\<close>

lemma andthen_simps [simp]:
  "andthen (Inl e) f = Inl e"
  "andthen (Inr v) f = f v"
  by (simp_all add: andthen_def)

lemma andthen_eq_Inr:
  "andthen m f = Inr y \<longleftrightarrow> (\<exists>v. m = Inr v \<and> f v = Inr y)"
  by (cases m) simp_all

lemma init_eq_Inr:
  "init c sma ecc inc raan argp ta epoch = Inr pr \<longleftrightarrow>
     ecc < 1 \<and> pr = \<lparr>self_class = c, self_sma = sma, self_ecc = ecc, self_inc = inc,
                self_raan = raan, self_argp = argp, self_ta = ta, self_epoch = epoch\<rparr>"
  by (auto simp: init_def)

lemma init_not_ValueError: "init c sma ecc inc raan argp ta epoch \<noteq> Inl (ValueError m)"
  by (simp add: init_def)

lemma dt_datetime_not_exactly_two:
  "dt_datetime y m d hms \<noteq>
     Inl (ValueError ''Exactly two of altitude, eccentricity and inclination must be given'')"
  by (simp add: dt_datetime_def split: prod.splits)

text \<open>What a successful call of the solver returns, in terms of its \<^verbatim>\<open>try\<close> block.\<close>

lemma sun_synchronous_eq_Inr:
  "sun_synchronous env alt_km ecc inc_deg ltan_h date ta_deg = Inr pr \<longleftrightarrow>
     (\<exists>sma e i epoch.
        sun_synchronous_try env alt_km ecc inc_deg = Inr (Finite sma, e, i) \<and>
        dt_datetime (year (case date of None \<Rightarrow> today env | Some d \<Rightarrow> d))
                    (month (case date of None \<Rightarrow> today env | Some d \<Rightarrow> d))
                    (day (case date of None \<Rightarrow> today env | Some d \<Rightarrow> d))
                    (float_to_hms env ltan_h) = Inr epoch \<and>
        e < 1 \<and>
        pr = \<lparr>self_class = J2Predictor, self_sma = sma, self_ecc = e, self_inc = i,
               self_raan = raan_from_ltan env epoch ltan_h, self_argp = 0,
               self_ta = ta_deg, self_epoch = epoch\<rparr>)"
proof (cases "sun_synchronous_try env alt_km ecc inc_deg")
  case (Inl e)
  then show ?thesis
    by (cases e) (simp_all add: sun_synchronous_def)
next
  case (Inr r)
  obtain s e i where r: "r = (s, e, i)" by (cases r)
  show ?thesis
  proof (cases s)
    case (Finite x)
    with Inr r show ?thesis
      by (auto simp: sun_synchronous_def Let_def andthen_eq_Inr init_eq_Inr)
  next
    case PosInf
    with Inr r show ?thesis
      by (auto simp: sun_synchronous_def Let_def andthen_eq_Inr)
  next
    case NegInf
    with Inr r show ?thesis
      by (auto simp: sun_synchronous_def Let_def andthen_eq_Inr)
  qed
qed

lemma try_alt_ecc_not_ValueError:
  "sun_synchronous_try env (Some alt_km) (Some ecc) inc_deg \<noteq> Inl (ValueError m)"
proof -
  have a: "py_pow x a \<noteq> Inl (ValueError m)" for x a
    by (simp add: py_pow_def)
  have b: "np_sqrt_f x \<noteq> Inl (ValueError m)" for x
    by (simp add: np_sqrt_f_def)
  have c: "np_divide x y \<noteq> Inl (ValueError m)" for x y
    by (simp add: np_divide_def)
  have d: "np_arccos v \<noteq> Inl (ValueError m)" for v
    by (cases v) simp_all
  show ?thesis
    using a b c d
    by (auto simp: Let_def andthen_def split: sum.splits)
qed

lemma sun_synchronous_not_exactly_two:
  assumes "sun_synchronous_try env a e i \<noteq>
     Inl (ValueError ''Exactly two of altitude, eccentricity and inclination must be given'')"
  shows "sun_synchronous env a e i ltan_h date ta_deg \<noteq>
     Inl (ValueError ''Exactly two of altitude, eccentricity and inclination must be given'')"
proof (cases "sun_synchronous_try env a e i")
  case (Inl err)
  with assms show ?thesis
    by (cases err) (simp_all add: sun_synchronous_def)
next
  case (Inr r)
  obtain s e' i' where r: "r = (s, e', i')" by (cases r)
  from Inr r show ?thesis
    by (cases s)
      (auto simp: sun_synchronous_def Let_def andthen_def dt_datetime_not_exactly_two
        init_not_ValueError split: sum.splits)
qed

section \<open>The sample orbit is feasible\<close>

lemma sample_env_simps:
  "MU_E sample_env = 398600.5" "R_E_KM sample_env = 6378.137"
  "J2 sample_env = 0.00108262998905"
  by (simp_all add: MU_E_def R_E_KM_def J2_def sample_env_def wgs84_sgp4_def)

lemma powr_7_2: "0 \<le> x \<Longrightarrow> x powr (7 / 2) = x ^ 3 * sqrt x" for x :: real
proof -
  assume x: "0 \<le> x"
  show ?thesis
  proof (cases "x = 0")
    case True then show ?thesis by simp
  next
    case False
    with x have pos: "0 < x" by simp
    have "x powr (7 / 2) = x powr (3 + 1 / 2)" by simp
    also have "\<dots> = x powr 3 * x powr (1 / 2)" by (rule powr_add)
    also have "x powr 3 = x ^ 3" using pos by (simp add: powr_numeral)
    also have "x powr (1 / 2) = sqrt x" using x by (simp add: powr_half_sqrt)
    finally show ?thesis .
  qed
qed

lemma sample_x_range: "\<bar>sample_x\<bar> \<le> 1"
proof -
  have s1: "sqrt (6978.137::real) \<le> 84"
    by (rule real_le_lsqrt) simp_all
  have s2: "(631::real) \<le> sqrt 398600.5"
    by (rule real_le_rsqrt) simp
  have p: "(6978.137::real) powr (7 / 2) = 6978.137 ^ 3 * sqrt 6978.137"
    by (rule powr_7_2) simp
  have p1: "(6978.137::real) powr (7 / 2) \<le> 6978.137 ^ 3 * 84"
    unfolding p using s1 by (intro mult_left_mono) simp_all
  have p0: "0 \<le> (6978.137::real) powr (7 / 2)" by simp
  have om: "OMEGA \<le> 8 / (86400 * 365.2421897)"
    unfolding OMEGA_def using pi_less_4 by (intro divide_right_mono) simp_all
  have om0: "0 \<le> OMEGA" unfolding OMEGA_def by simp
  have num: "2 * (6978.137::real) powr (7 / 2) * OMEGA
      \<le> 2 * (6978.137 ^ 3 * 84) * (8 / (86400 * 365.2421897))"
    using p1 p0 om om0 by (intro mult_mono) simp_all
  have den: "3 * 6378.137 ^ 2 * 0.00108262998905 * (631::real)
      \<le> 3 * 6378.137 ^ 2 * 0.00108262998905 * sqrt 398600.5"
    using s2 by (intro mult_left_mono) simp_all
  have cmp: "2 * (6978.137 ^ 3 * 84) * (8 / (86400 * 365.2421897))
      \<le> 3 * 6378.137 ^ 2 * 0.00108262998905 * (631::real)"
    by (simp add: power2_eq_square power3_eq_cube)
  have den_pos: "0 < 3 * 6378.137 ^ 2 * 0.00108262998905 * sqrt (398600.5::real)"
    by simp
  define N :: real where "N = 2 * 6978.137 powr (7 / 2) * OMEGA"
  define D :: real where "D = 3 * 6378.137 ^ 2 * 0.00108262998905 * sqrt 398600.5"
  have ND: "N \<le> D"
    unfolding N_def D_def by (rule order_trans [OF num order_trans [OF cmp den]])
  have D0: "0 < D" unfolding D_def by (rule den_pos)
  have N0: "0 \<le> N" unfolding N_def using p0 om0 by simp
  have "sample_x = - (N / D)"
    unfolding sample_x_def N_def D_def by simp
  moreover have "0 \<le> N / D"
    using N0 D0 by simp
  ultimately have "\<bar>sample_x\<bar> = N / D"
    by simp
  also have "\<dots> \<le> 1"
    using ND D0 by (simp only: divide_le_eq_1_pos)
  finally show ?thesis .
qed

text \<open>The normal case of the solver, altitude and eccentricity given, when every operation
  has a real result.\<close>

lemma try_alt_ecc:
  assumes "0 \<le> R_E_KM env + alt_km" and "0 \<le> MU_E env"
    and "3 * R_E_KM env ^ 2 * J2 env * sqrt (MU_E env) \<noteq> 0"
    and "\<bar>(- 2 * (R_E_KM env + alt_km) powr (7 / 2) * OMEGA * (1 - ecc ^ 2) ^ 2)
            / (3 * R_E_KM env ^ 2 * J2 env * sqrt (MU_E env))\<bar> \<le> 1"
  shows "sun_synchronous_try env (Some alt_km) (Some ecc) inc_deg =
     Inr (Finite (R_E_KM env + alt_km), ecc,
          degrees (arccos ((- 2 * (R_E_KM env + alt_km) powr (7 / 2) * OMEGA * (1 - ecc ^ 2) ^ 2)
            / (3 * R_E_KM env ^ 2 * J2 env * sqrt (MU_E env)))))"
proof -
  have 1: "py_pow (R_E_KM env + alt_km) (7 / 2) = Inr ((R_E_KM env + alt_km) powr (7 / 2))"
    using assms(1) by (simp add: py_pow_def)
  have 2: "np_sqrt_f (MU_E env) = Inr (sqrt (MU_E env))"
    using assms(2) by (simp add: np_sqrt_f_def)
  have 3: "np_divide x (3 * R_E_KM env ^ 2 * J2 env * sqrt (MU_E env))
             = Inr (Finite (x / (3 * R_E_KM env ^ 2 * J2 env * sqrt (MU_E env))))" for x
    using assms(3) unfolding np_divide_def by (simp only: if_True simp_thms)
  show ?thesis
    unfolding sun_synchronous_try.simps Let_def 1 2 3 andthen_simps np_arccos.simps
    using assms(4) by (simp only: if_False not_less [symmetric] simp_thms andthen_simps)
qed

lemma sample_try:
  "sun_synchronous_try sample_env (Some 600) (Some 0) None
     = Inr (Finite 6978.137, 0, degrees (arccos sample_x))"
proof -
  have "sun_synchronous_try sample_env (Some 600) (Some 0) None
     = Inr (Finite (R_E_KM sample_env + 600), 0,
          degrees (arccos ((- 2 * (R_E_KM sample_env + 600) powr (7 / 2) * OMEGA * (1 - 0 ^ 2) ^ 2)
            / (3 * R_E_KM sample_env ^ 2 * J2 sample_env * sqrt (MU_E sample_env)))))"
  proof (rule try_alt_ecc)
    show "\<bar>(- 2 * (R_E_KM sample_env + 600) powr (7 / 2) * OMEGA * (1 - 0 ^ 2) ^ 2)
            / (3 * R_E_KM sample_env ^ 2 * J2 sample_env * sqrt (MU_E sample_env))\<bar> \<le> 1"
      using sample_x_range unfolding sample_x_def sample_env_simps .
  qed (simp_all add: sample_env_simps)
  then show ?thesis
    unfolding sample_x_def sample_env_simps by simp
qed

lemma sample_solution:
  "sun_synchronous sample_env (Some 600) (Some 0) None 12 None ta_deg
     = Inr (sample_predictor ta_deg)"
proof -
  have h: "float_to_hms sample_env 12 = (12, 0, 0)"
    by (simp add: sample_env_def sample_float_to_hms_def frac_def)
  have t: "today sample_env = \<lparr>year = 2020, month = 3, day = 20\<rparr>"
    by (simp add: sample_env_def)
  have r: "raan_from_ltan sample_env e 12 = 0" for e
    by (simp add: sample_env_def)
  show ?thesis
    unfolding sun_synchronous_def sample_try
    by (simp add: h t r dt_datetime_def init_def sample_predictor_def sample_epoch_def)
qed

section \<open>Facts about the constellation generator\<close>

lemma sun_synchronous_ta:
  "sun_synchronous env alt_km ecc inc_deg ltan_h date 0 = Inr p0 \<Longrightarrow>
   sun_synchronous env alt_km ecc inc_deg ltan_h date ta_deg = Inr (p0\<lparr>self_ta := ta_deg\<rparr>)"
  unfolding sun_synchronous_eq_Inr by auto

lemma generate_all_Inr:
  "(\<And>x. x \<in> set xs \<Longrightarrow> f x = Inr (g x)) \<Longrightarrow> generate f xs = (map g xs, None)"
  by (induction xs) simp_all

lemma np_linspace_length: "length (np_linspace a b n) = n"
  by (simp add: np_linspace_def)

lemma np_linspace_nth: "i < n \<Longrightarrow> np_linspace 0 360 n ! i = real i * (360 / real n)"
  by (simp add: np_linspace_def)

lemma constellation_eq:
  assumes "sun_synchronous env alt_km ecc inc_deg ltan_h date 0 = Inr p0"
  shows "sun_sync_plane_constellation env n alt_km ecc inc_deg ltan_h date =
     (map (\<lambda>t. p0\<lparr>self_ta := t\<rparr>) (np_linspace 0 360 n), None)"
  unfolding sun_sync_plane_constellation_def
  by (rule generate_all_Inr) (rule sun_synchronous_ta [OF assms])

section \<open>Facts about propagation\<close>

lemma py_div_nz: "y \<noteq> 0 \<Longrightarrow> py_div x y = Inr (x / y)"
  by (simp add: py_div_def)

lemma math_sqrt_nonneg: "0 \<le> x \<Longrightarrow> math_sqrt x = Inr (sqrt x)"
  by (simp add: math_sqrt_def)

lemma pkepler_n_pos:
  "0 < sma \<Longrightarrow> 0 \<le> MU_E env \<Longrightarrow> pkepler_n env sma = Inr (sqrt (MU_E env / sma ^ 3))"
  by (simp add: pkepler_n_def py_div_nz math_sqrt_nonneg)

lemma pkepler_delta_raan_nz:
  "p \<noteq> 0 \<Longrightarrow> pkepler_delta_raan env n p inc dt
     = Inr (- (3 * n * R_E_KM env ^ 2 * J2 env) / (2 * p ^ 2) * cos inc * dt)"
  by (simp add: pkepler_delta_raan_def py_div_nz)

lemma pkepler_delta_argp_nz:
  "p \<noteq> 0 \<Longrightarrow> pkepler_delta_argp env n p inc dt
     = Inr ((3 * n * R_E_KM env ^ 2 * J2 env) / (4 * p ^ 2) * (4 - 5 * sin inc ^ 2) * dt)"
  by (simp add: pkepler_delta_argp_def py_div_nz)

lemma pkepler_M0_dot_nz:
  "p \<noteq> 0 \<Longrightarrow> 0 \<le> 1 - ecc ^ 2 \<Longrightarrow> pkepler_M0_dot env n p inc ecc
     = Inr ((3 * n * R_E_KM env ^ 2 * J2 env) / (4 * p ^ 2) * (2 - 3 * sin inc ^ 2)
            * sqrt (1 - ecc ^ 2))"
  by (simp add: pkepler_M0_dot_def py_div_nz math_sqrt_nonneg)

lemma ecc_sq_less_1: "0 \<le> e \<Longrightarrow> e < 1 \<Longrightarrow> e ^ 2 < 1" for e :: real
  by (simp add: power_less_one_iff)

lemma sample_delta_t:
  "total_seconds_between (sample_epoch\<lparr>hour := 11\<rparr>) sample_epoch = - 3600"
  "total_seconds_between (sample_epoch\<lparr>day := 21\<rparr>) sample_epoch = 86400"
  by (simp_all add: total_seconds_between_def microseconds_of_def toordinal_def sample_epoch_def)

section \<open>Facts about the solver\<close>

lemma py_pow_eq_Inr: "py_pow x a = Inr v \<longleftrightarrow> 0 \<le> x \<and> v = x powr a"
  by (auto simp: py_pow_def)

lemma np_sqrt_f_eq_Inr: "np_sqrt_f x = Inr v \<longleftrightarrow> 0 \<le> x \<and> v = sqrt x"
  by (auto simp: np_sqrt_f_def)

lemma np_divide_eq_Finite: "np_divide x y = Inr (Finite v) \<longleftrightarrow> y \<noteq> 0 \<and> v = x / y"
  by (auto simp: np_divide_def)

lemma np_arccos_eq_Inr:
  "np_arccos w = Inr a \<longleftrightarrow> (\<exists>x. w = Finite x \<and> \<bar>x\<bar> \<le> 1 \<and> a = arccos x)"
  by (cases w) auto

lemma np_sqrt_eq_Finite:
  "np_sqrt w = Inr (Finite v) \<longleftrightarrow> (\<exists>x. w = Finite x \<and> 0 \<le> x \<and> v = sqrt x)"
  by (cases w) auto

lemma np_rsub_eq_Finite: "np_rsub c w = Finite v \<longleftrightarrow> (\<exists>x. w = Finite x \<and> v = c - x)"
  by (cases w) auto

lemma np_real_eq_Inr: "np_real w = Inr v \<longleftrightarrow> w = Finite v"
  by (cases w) auto

lemma np_power_eq_Finite:
  "np_power w a = Inr (Finite v) \<longleftrightarrow> (\<exists>x. w = Finite x \<and> 0 \<le> x \<and> v = x powr a)"
  by (cases w) auto

lemmas np_inversions = py_pow_eq_Inr np_sqrt_f_eq_Inr np_divide_eq_Finite np_arccos_eq_Inr
  np_sqrt_eq_Finite np_rsub_eq_Finite np_real_eq_Inr np_power_eq_Finite

lemma try_alt_ecc_Inr:
  assumes "sun_synchronous_try env (Some alt_km) (Some ecc) inc_deg = Inr (Finite sma, e, i)"
  shows "sma = R_E_KM env + alt_km \<and> e = ecc \<and> 0 \<le> sma \<and> 0 \<le> MU_E env \<and>
     3 * R_E_KM env ^ 2 * J2 env * sqrt (MU_E env) \<noteq> 0 \<and>
     \<bar>(- 2 * sma powr (7 / 2) * OMEGA * (1 - ecc ^ 2) ^ 2)
            / (3 * R_E_KM env ^ 2 * J2 env * sqrt (MU_E env))\<bar> \<le> 1 \<and>
     i = degrees (arccos ((- 2 * sma powr (7 / 2) * OMEGA * (1 - ecc ^ 2) ^ 2)
            / (3 * R_E_KM env ^ 2 * J2 env * sqrt (MU_E env))))"
  using assms
  by (auto simp: Let_def andthen_eq_Inr np_inversions)

lemma try_alt_inc_Inr:
  assumes "sun_synchronous_try env (Some alt_km) None (Some inc_deg) = Inr (Finite sma, e, i)"
  shows "sma = R_E_KM env + alt_km \<and> i = inc_deg \<and> 0 \<le> sma \<and> 0 \<le> MU_E env \<and>
     2 * OMEGA * sma powr (7 / 2) \<noteq> 0 \<and>
     0 \<le> (- 3 * R_E_KM env ^ 2 * J2 env * sqrt (MU_E env) * cos (radians inc_deg))
            / (2 * OMEGA * sma powr (7 / 2)) \<and>
     0 \<le> 1 - sqrt ((- 3 * R_E_KM env ^ 2 * J2 env * sqrt (MU_E env) * cos (radians inc_deg))
            / (2 * OMEGA * sma powr (7 / 2))) \<and>
     e = sqrt (1 - sqrt ((- 3 * R_E_KM env ^ 2 * J2 env * sqrt (MU_E env) * cos (radians inc_deg))
            / (2 * OMEGA * sma powr (7 / 2))))"
  using assms
  by (auto simp: Let_def andthen_eq_Inr np_inversions)

lemma try_ecc_inc_Inr:
  assumes "sun_synchronous_try env None (Some ecc) (Some inc_deg) = Inr (Finite sma, e, i)"
  shows "e = ecc \<and> i = inc_deg \<and> 0 \<le> MU_E env \<and>
     2 * OMEGA * (1 - ecc ^ 2) ^ 2 \<noteq> 0 \<and>
     0 \<le> (- cos (radians inc_deg) * (3 * R_E_KM env ^ 2 * J2 env * sqrt (MU_E env)))
            / (2 * OMEGA * (1 - ecc ^ 2) ^ 2) \<and>
     sma = ((- cos (radians inc_deg) * (3 * R_E_KM env ^ 2 * J2 env * sqrt (MU_E env)))
            / (2 * OMEGA * (1 - ecc ^ 2) ^ 2)) powr (2 / 7)"
  using assms
  by (auto simp: Let_def andthen_eq_Inr np_inversions)


lemma mean_motion_times_powr:
  assumes "0 < sma" and "0 \<le> m"
  shows "sqrt (m / sma ^ 3) * sma powr (7 / 2) = sma ^ 2 * sqrt m"
proof -
  have s: "0 < sqrt sma" using assms(1) by simp
  have "sma ^ 3 = sma ^ 2 * sma" by (simp add: power3_eq_cube power2_eq_square)
  then have "sqrt (sma ^ 3) = sma * sqrt sma"
    using assms(1) by (simp add: real_sqrt_mult)
  then have "sqrt (m / sma ^ 3) = sqrt m / (sma * sqrt sma)"
    by (simp add: real_sqrt_divide)
  moreover have "sma powr (7 / 2) = sma ^ 3 * sqrt sma"
    using assms(1) by (simp add: powr_7_2)
  ultimately have "sqrt (m / sma ^ 3) * sma powr (7 / 2)
      = sqrt m / (sma * sqrt sma) * (sma ^ 3 * sqrt sma)"
    by simp
  also have "\<dots> = sma ^ 2 * sqrt m"
    using assms(1) s by (simp add: power3_eq_cube power2_eq_square)
  finally show ?thesis .
qed

text \<open>The Sun-synchronism equation in the form all three branches of the solver give it\<close>

lemma regression_rate_eq_OMEGA:
  fixes sma m K q cs :: real
  assumes "0 < sma" and "0 \<le> m" and "q \<noteq> 0"
    and rel: "- 3 * K * sqrt m * cs = 2 * OMEGA * sma powr (7 / 2) * q ^ 2"
  shows "- (3 * sqrt (m / sma ^ 3) * K) / (2 * (sma * q) ^ 2) * cs * 1 = OMEGA"
proof -
  define P where "P = sma powr (7 / 2)"
  define n where "n = sqrt (m / sma ^ 3)"
  have P: "0 < P" unfolding P_def using assms(1) by simp
  have nP: "n * P = sma ^ 2 * sqrt m"
    unfolding n_def P_def by (rule mean_motion_times_powr [OF assms(1,2)])
  have "(- (3 * n * K) / (2 * (sma * q) ^ 2) * cs * 1) * P
      = (- 3 * K * cs) * (n * P) / (2 * sma ^ 2 * q ^ 2)"
    by (simp add: power_mult_distrib mult_ac)
  also have "\<dots> = (- 3 * K * sqrt m * cs) * sma ^ 2 / (2 * sma ^ 2 * q ^ 2)"
    unfolding nP by (simp add: mult_ac)
  also have "\<dots> = (2 * OMEGA * P * q ^ 2) * sma ^ 2 / (2 * sma ^ 2 * q ^ 2)"
    unfolding rel P_def ..
  also have "\<dots> = OMEGA * P"
    using assms(1,3) by simp
  finally have "(- (3 * n * K) / (2 * (sma * q) ^ 2) * cs * 1) * P = OMEGA * P" .
  then have "- (3 * n * K) / (2 * (sma * q) ^ 2) * cs * 1 = OMEGA"
    using P by (simp only: mult_cancel_right) simp
  then show ?thesis
    unfolding n_def .
qed

lemma div_mult_self_nz: "d \<noteq> 0 \<Longrightarrow> a / d * d = a" for a d :: real
  by simp

lemma nodal_regression_rate_eq:
  assumes "0 < self_sma pr" and "0 \<le> MU_E env" and "1 - self_ecc pr ^ 2 \<noteq> 0"
  shows "nodal_regression_rate env pr =
     Inr (- (3 * sqrt (MU_E env / self_sma pr ^ 3) * (R_E_KM env ^ 2 * J2 env))
            / (2 * (self_sma pr * (1 - self_ecc pr ^ 2)) ^ 2) * cos (radians (self_inc pr)) * 1)"
proof -
  have p: "self_sma pr * (1 - self_ecc pr ^ 2) \<noteq> 0"
    using assms(1,3) by simp
  show ?thesis
    by (simp add: nodal_regression_rate_def Let_def pkepler_n_pos [OF assms(1,2)]
        pkepler_delta_raan_nz [OF p] mult.assoc)
qed

lemma radians_degrees [simp]: "radians (degrees x) = x"
  by (simp add: radians_def degrees_def)


lemma rel_ecc_inc:
  assumes t: "sun_synchronous_try env None (Some ecc') (Some inc') = Inr (Finite sma, e, i)"
  shows "0 \<le> MU_E env \<and> - 3 * (R_E_KM env ^ 2 * J2 env) * sqrt (MU_E env) * cos (radians i)
                 = 2 * OMEGA * sma powr (7 / 2) * (1 - e ^ 2) ^ 2"
proof -
  note inv = try_ecc_inc_Inr [OF t]
  define b where "b = (- cos (radians inc') * (3 * R_E_KM env ^ 2 * J2 env * sqrt (MU_E env)))
      / (2 * OMEGA * (1 - ecc' ^ 2) ^ 2)"
  have b0: "0 \<le> b" and smab: "sma = b powr (2 / 7)"
    using inv unfolding b_def by blast+
  have nz: "2 * OMEGA * (1 - ecc' ^ 2) ^ 2 \<noteq> 0" using inv by blast
  have ei: "e = ecc'" "i = inc'" using inv by blast+
  have "sma powr (7 / 2) = b powr 1"
    unfolding smab by (simp add: powr_powr)
  also have "\<dots> = b" using b0 by simp
  finally have P: "sma powr (7 / 2) = b" .
  have "b * (2 * OMEGA * (1 - ecc' ^ 2) ^ 2)
      = - cos (radians inc') * (3 * R_E_KM env ^ 2 * J2 env * sqrt (MU_E env))"
    unfolding b_def by (rule div_mult_self_nz [OF nz])
  then have "- 3 * (R_E_KM env ^ 2 * J2 env) * sqrt (MU_E env) * cos (radians i)
           = 2 * OMEGA * sma powr (7 / 2) * (1 - e ^ 2) ^ 2"
    unfolding P ei by algebra
  then show ?thesis using inv by blast
qed


lemma rel_from_arccos_arg:
  fixes x D' s P Om Q :: real
  assumes "x * (3 * D' * s) = - 2 * P * Om * Q"
  shows "- 3 * D' * s * x = 2 * Om * P * Q"
proof -
  have "- 3 * D' * s * x = - (x * (3 * D' * s))" by simp
  also have "\<dots> = - (- 2 * P * Om * Q)" by (simp only: assms)
  also have "\<dots> = 2 * Om * P * Q" by simp
  finally show ?thesis .
qed

lemma rel_from_radicand:
  fixes y D' s P Om c :: real
  assumes "y * (2 * Om * P) = - 3 * D' * s * c"
  shows "- 3 * D' * s * c = 2 * Om * P * y"
proof -
  have "2 * Om * P * y = y * (2 * Om * P)" by simp
  then show ?thesis by (simp only: assms)
qed

lemma rel_alt_ecc:
  assumes t: "sun_synchronous_try env (Some alt') (Some ecc') inc_deg = Inr (Finite sma, e, i)"
  shows "0 \<le> MU_E env \<and> - 3 * (R_E_KM env ^ 2 * J2 env) * sqrt (MU_E env) * cos (radians i)
                 = 2 * OMEGA * sma powr (7 / 2) * (1 - e ^ 2) ^ 2"
proof -
  note inv = try_alt_ecc_Inr [OF t]
  define K where "K = R_E_KM env ^ 2 * J2 env"
  define D where "D = 3 * K * sqrt (MU_E env)"
  have D: "3 * R_E_KM env ^ 2 * J2 env * sqrt (MU_E env) = D"
    unfolding D_def K_def by simp
  define x where "x = (- 2 * sma powr (7 / 2) * OMEGA * (1 - ecc' ^ 2) ^ 2) / D"
  have nz: "D \<noteq> 0" and x1: "\<bar>x\<bar> \<le> 1" and i: "i = degrees (arccos x)" and e: "e = ecc'"
    using inv unfolding x_def D by blast+
  have c: "cos (radians i) = x"
    unfolding i radians_degrees using x1 by (rule cos_arccos_abs)
  have "x * (3 * K * sqrt (MU_E env)) = - 2 * sma powr (7 / 2) * OMEGA * (1 - ecc' ^ 2) ^ 2"
    unfolding x_def D_def [symmetric] by (rule div_mult_self_nz [OF nz])
  then have "- 3 * K * sqrt (MU_E env) * x = 2 * OMEGA * sma powr (7 / 2) * (1 - ecc' ^ 2) ^ 2"
    by (rule rel_from_arccos_arg)
  then have "- 3 * (R_E_KM env ^ 2 * J2 env) * sqrt (MU_E env) * cos (radians i)
           = 2 * OMEGA * sma powr (7 / 2) * (1 - e ^ 2) ^ 2"
    unfolding c e K_def .
  then show ?thesis using inv by blast
qed

lemma rel_alt_inc:
  assumes t: "sun_synchronous_try env (Some alt') None (Some inc') = Inr (Finite sma, e, i)"
  shows "0 \<le> MU_E env \<and> - 3 * (R_E_KM env ^ 2 * J2 env) * sqrt (MU_E env) * cos (radians i)
                 = 2 * OMEGA * sma powr (7 / 2) * (1 - e ^ 2) ^ 2"
proof -
  note inv = try_alt_inc_Inr [OF t]
  define K where "K = R_E_KM env ^ 2 * J2 env"
  define N where "N = - 3 * K * sqrt (MU_E env) * cos (radians inc')"
  have N: "- 3 * R_E_KM env ^ 2 * J2 env * sqrt (MU_E env) * cos (radians inc') = N"
    unfolding N_def K_def by simp
  define y where "y = N / (2 * OMEGA * sma powr (7 / 2))"
  have nz: "2 * OMEGA * sma powr (7 / 2) \<noteq> 0" and y0: "0 \<le> y" and y1: "0 \<le> 1 - sqrt y"
    and e: "e = sqrt (1 - sqrt y)" and i: "i = inc'"
    using inv unfolding y_def N by blast+
  have "e ^ 2 = 1 - sqrt y" unfolding e using y1 by (rule real_sqrt_pow2)
  then have "1 - e ^ 2 = sqrt y" by simp
  then have q: "(1 - e ^ 2) ^ 2 = y" using y0 by simp
  have "y * (2 * OMEGA * sma powr (7 / 2)) = - 3 * K * sqrt (MU_E env) * cos (radians inc')"
    unfolding y_def N_def [symmetric] by (rule div_mult_self_nz [OF nz])
  then have "- 3 * K * sqrt (MU_E env) * cos (radians inc') = 2 * OMEGA * sma powr (7 / 2) * y"
    by (rule rel_from_radicand)
  then have "- 3 * (R_E_KM env ^ 2 * J2 env) * sqrt (MU_E env) * cos (radians i)
           = 2 * OMEGA * sma powr (7 / 2) * (1 - e ^ 2) ^ 2"
    unfolding q i K_def .
  then show ?thesis using inv by blast
qed


lemma try_Inr_cases:
  assumes "sun_synchronous_try env alt_km ecc inc_deg = Inr r"
  obtains (alt_ecc) a e where "alt_km = Some a" "ecc = Some e"
  | (alt_inc) a i where "alt_km = Some a" "ecc = None" "inc_deg = Some i"
  | (ecc_inc) e i where "alt_km = None" "ecc = Some e" "inc_deg = Some i"
  using assms by (cases "(env, alt_km, ecc, inc_deg)" rule: sun_synchronous_try.cases) simp_all



























section \<open>A circular equatorial orbit under two gravitational parameters\<close>

lemma elementsToState_zero_angles:
  "elementsToState k p 0 0 0 0 0 = ((p, 0, 0), (0, sqrt (k / p), 0))"
  by (simp add: elementsToState_def rot_z_def rot_x_def)

lemma kepler_sample:
  "kepler sample_env 0 0 0 0 7000 0 7000 0
     = Inr ((7000, 0, 0), (0, sqrt (398600.5 / 7000), 0))"
  by (simp add: kepler_def Let_def py_div_nz math_sqrt_nonneg MU_E_def sample_env_def
      wgs84_sgp4_def elementsToState_zero_angles)

lemma kepler_alternate:
  "kepler alternate_env 0 0 0 0 7000 0 7000 0
     = Inr ((7000, 0, 0), (0, 2 * sqrt (398600.5 / 7000), 0))"
proof -
  have "sqrt (4 * 398600.5 / 7000) = 2 * sqrt (398600.5 / (7000::real))"
    using real_sqrt_mult [of 4 "398600.5 / 7000"] by simp
  then show ?thesis
    by (simp add: kepler_def Let_def py_div_nz math_sqrt_nonneg MU_E_def sample_env_def
        alternate_env_def wgs84_sgp4_def elementsToState_zero_angles)
qed


section \<open>Properties of the predictors\<close>

text \<open>
  Claim C10. Every predictor the Sun-synchronous solver returns has its argument of perigee
  set to 0, whatever altitude, eccentricity, inclination, local time of the ascending node,
  date and true anomaly were given.
\<close>

theorem sun_synchronous_argp_zero:
  "sun_synchronous env alt_km ecc inc_deg ltan_h date ta_deg = Inr pr \<Longrightarrow> self_argp pr = 0"
  by (auto simp: sun_synchronous_eq_Inr)

theorem sun_synchronous_argp_zero_witness:
  "sun_synchronous sample_env (Some 600) (Some 0) None 12 None 45 = Inr (sample_predictor 45)
   \<and> self_argp (sample_predictor 45) = 0"
  using sample_solution [of 45] sun_synchronous_argp_zero [OF sample_solution [of 45]]
  by simp

text \<open>
  Claim C9. Propagation leaves the stored elements of a Keplerian or J2 predictor as they
  were: the instance that comes out of \<^verbatim>\<open>_propagate_eci\<close> is the instance that went in,
  for every target epoch; the position and velocity are a new value.
\<close>

theorem propagate_keeps_elements:
  "fst (Keplerian_propagate_eci env self when_utc) = self \<and>
   fst (J2_propagate_eci env self when_utc) = self \<and>
   fst (propagate_eci env self when_utc) = self"
  by (simp add: Keplerian_propagate_eci_def J2_propagate_eci_def propagate_eci_def Let_def
      split: predictor_class.split)

text \<open>
  Claim C2, at the input where the code departs from it. With all three of altitude,
  eccentricity and inclination given, the solver takes the branch for altitude and
  eccentricity: it behaves as if the inclination had not been given, and it does not raise
  the error "Exactly two of altitude, eccentricity and inclination must be given". For an
  altitude of 600 km, a circular orbit and an inclination of 97 degrees, in the sample
  environment, it returns the predictor it returns without the inclination, whose
  inclination is the solved one.
\<close>

theorem sun_synchronous_three_given:
  "sun_synchronous env (Some alt_km) (Some ecc) (Some inc_deg) ltan_h date ta_deg
     = sun_synchronous env (Some alt_km) (Some ecc) None ltan_h date ta_deg \<and>
   sun_synchronous env (Some alt_km) (Some ecc) (Some inc_deg) ltan_h date ta_deg
     \<noteq> Inl (ValueError ''Exactly two of altitude, eccentricity and inclination must be given'')
   \<and> sun_synchronous sample_env (Some 600) (Some 0) (Some 97) 12 None 0
     = Inr (sample_predictor 0)"
proof -
  have "sun_synchronous sample_env (Some 600) (Some 0) (Some 97) 12 None 0
     = sun_synchronous sample_env (Some 600) (Some 0) None 12 None 0"
    by (simp add: sun_synchronous_def)
  then have "sun_synchronous sample_env (Some 600) (Some 0) (Some 97) 12 None 0
     = Inr (sample_predictor 0)"
    by (simp only: sample_solution)
  then show ?thesis
    using sun_synchronous_not_exactly_two [OF try_alt_ecc_not_ValueError]
    by (simp add: sun_synchronous_def)
qed

text \<open>
  Claim C6, as the code has it. Construction of a Keplerian or J2 predictor fails, with
  \<^verbatim>\<open>NotImplementedError\<close>, exactly when \<open>ecc \<ge> 1.0\<close>; every other construction
  succeeds and stores the elements as given. The semi-major axis and the lower bound of the
  eccentricity are not checked.
\<close>

theorem init_fails_iff_ecc_ge_1:
  "(1 \<le> ecc \<longrightarrow> init c sma ecc inc raan argp ta epoch = Inl NotImplementedError) \<and>
   (ecc < 1 \<longrightarrow> init c sma ecc inc raan argp ta epoch =
      Inr \<lparr>self_class = c, self_sma = sma, self_ecc = ecc, self_inc = inc,
           self_raan = raan, self_argp = argp, self_ta = ta, self_epoch = epoch\<rparr>)"
  by (simp add: init_def)

theorem init_fails_iff_ecc_ge_1_witness:
  "init KeplerianPredictor 7000 1 45 0 0 0 sample_epoch = Inl NotImplementedError \<and>
   init J2Predictor 7000 1.5 45 0 0 0 sample_epoch = Inl NotImplementedError \<and>
   init KeplerianPredictor 7000 0 45 0 0 0 sample_epoch =
      Inr \<lparr>self_class = KeplerianPredictor, self_sma = 7000, self_ecc = 0, self_inc = 45,
           self_raan = 0, self_argp = 0, self_ta = 0, self_epoch = sample_epoch\<rparr>"
  using init_fails_iff_ecc_ge_1 [of 1 KeplerianPredictor 7000 45 0 0 0 sample_epoch]
    init_fails_iff_ecc_ge_1 [of "1.5" J2Predictor 7000 45 0 0 0 sample_epoch]
    init_fails_iff_ecc_ge_1 [of 0 KeplerianPredictor 7000 45 0 0 0 sample_epoch]
  by simp

text \<open>The claim as stated fails: a negative semi-major axis with a negative eccentricity
  violates both constraints and is accepted.\<close>

theorem init_accepts_invalid_elements:
  "init KeplerianPredictor (- 1) (- 1 / 2) 45 0 0 0 sample_epoch =
      Inr \<lparr>self_class = KeplerianPredictor, self_sma = - 1, self_ecc = - 1 / 2, self_inc = 45,
           self_raan = 0, self_argp = 0, self_ta = 0, self_epoch = sample_epoch\<rparr>
   \<and> \<not> ((0::real) < - 1 \<and> (0::real) \<le> - 1 / 2 \<and> (- 1 / 2 :: real) < 1)"
  by (simp add: init_def)

text \<open>
  Claim C7. For a count \<open>n \<ge> 1\<close> and design parameters the solver accepts, the
  constellation generator ends normally after yielding exactly \<open>n\<close> predictors; the
  \<open>i\<close>-th is the solver's predictor for the true anomaly \<open>i \<cdot> 360 / n\<close>, which lies in
  \<open>[0, 360)\<close> and is 0 for the first; all of them are J2 predictors with the same
  semi-major axis, eccentricity, inclination, right ascension of the ascending node,
  argument of perigee and epoch.
\<close>

theorem constellation_evenly_spaced:
  assumes "1 \<le> n"
    and "sun_synchronous env alt_km ecc inc_deg ltan_h date 0 = Inr p0"
    and "sun_sync_plane_constellation env n alt_km ecc inc_deg ltan_h date = (ps, r)"
  shows "r = None \<and> length ps = n \<and> self_ta (ps ! 0) = 0 \<and>
    (\<forall>i<n. self_ta (ps ! i) = real i * (360 / real n) \<and>
            0 \<le> self_ta (ps ! i) \<and> self_ta (ps ! i) < 360 \<and>
            self_class (ps ! i) = J2Predictor \<and>
            self_sma (ps ! i) = self_sma p0 \<and> self_ecc (ps ! i) = self_ecc p0 \<and>
            self_inc (ps ! i) = self_inc p0 \<and> self_raan (ps ! i) = self_raan p0 \<and>
            self_argp (ps ! i) = self_argp p0 \<and> self_epoch (ps ! i) = self_epoch p0 \<and>
            sun_synchronous env alt_km ecc inc_deg ltan_h date (real i * (360 / real n))
              = Inr (ps ! i))"
proof -
  have ps: "ps = map (\<lambda>t. p0\<lparr>self_ta := t\<rparr>) (np_linspace 0 360 n)" and r: "r = None"
    using constellation_eq [OF assms(2), of n] assms(3) by simp_all
  have cls: "self_class p0 = J2Predictor"
    using assms(2) by (auto simp: sun_synchronous_eq_Inr)
  have len: "length ps = n" by (simp add: ps np_linspace_length)
  have nth: "ps ! i = p0\<lparr>self_ta := real i * (360 / real n)\<rparr>" if "i < n" for i
    using that by (simp add: ps np_linspace_length np_linspace_nth)
  have rng: "real i * (360 / real n) < 360" if "i < n" for i
  proof -
    from that have "real i < real n" by simp
    moreover from that have "0 < real n" by simp
    ultimately have "real i / real n < 1" by simp
    then have "360 * (real i / real n) < 360 * 1" by (simp only: mult_less_cancel_left_pos)
    then show ?thesis by (simp add: field_simps)
  qed
  show ?thesis
    using r len nth rng cls assms(1) sun_synchronous_ta [OF assms(2)]
    by simp
qed

theorem constellation_evenly_spaced_witness:
  "(1::nat) \<le> 4 \<and>
   sun_synchronous sample_env (Some 600) (Some 0) None 12 None 0 = Inr (sample_predictor 0) \<and>
   snd (sun_sync_plane_constellation sample_env 4 (Some 600) (Some 0) None 12 None) = None \<and>
   length (fst (sun_sync_plane_constellation sample_env 4 (Some 600) (Some 0) None 12 None)) = 4
   \<and> self_ta (fst (sun_sync_plane_constellation sample_env 4 (Some 600) (Some 0) None 12 None)
               ! 0) = 0
   \<and> self_ta (fst (sun_sync_plane_constellation sample_env 4 (Some 600) (Some 0) None 12 None)
               ! 1) = 90
   \<and> self_ta (fst (sun_sync_plane_constellation sample_env 4 (Some 600) (Some 0) None 12 None)
               ! 2) = 180
   \<and> self_ta (fst (sun_sync_plane_constellation sample_env 4 (Some 600) (Some 0) None 12 None)
               ! 3) = 270"
proof -
  obtain ps r where c:
    "sun_sync_plane_constellation sample_env 4 (Some 600) (Some 0) None 12 None = (ps, r)"
    by (cases "sun_sync_plane_constellation sample_env 4 (Some 600) (Some 0) None 12 None")
  have n: "(1::nat) \<le> 4" by simp
  note t = constellation_evenly_spaced [OF n sample_solution [of 0] c]
  from t have "r = None" and "length ps = 4" and "self_ta (ps ! 0) = 0"
    by simp_all
  moreover from t have "self_ta (ps ! 1) = 90" and "self_ta (ps ! 2) = 180"
    and "self_ta (ps ! 3) = 270"
    by simp_all
  ultimately show ?thesis
    using c sample_solution [of 0] by simp
qed

text \<open>
  Claim C1. For a J2 predictor with a positive semi-major axis and an eccentricity in
  \<open>[0, 1)\<close> (and a gravitational parameter that is not negative), and for every target
  epoch, propagation returns the state conversion of these elements: \<open>p\<close>, the eccentricity
  and the inclination as stored, the right ascension of the ascending node advanced by
  \<open>-(3 n R\<^sup>2 J2) / (2 p\<^sup>2) cos(inc) \<Delta>t\<close>, the argument of perigee advanced by
  \<open>(3 n R\<^sup>2 J2) / (4 p\<^sup>2) (4 - 5 sin\<^sup>2(inc)) \<Delta>t\<close>, and the true anomaly of the mean anomaly
  \<open>M\<^sub>0 + (n + M0_dot) \<Delta>t\<close> with
  \<open>M0_dot = (3 n R\<^sup>2 J2) / (4 p\<^sup>2) (2 - 3 sin\<^sup>2(inc)) sqrt(1 - ecc\<^sup>2)\<close>, where
  \<open>n = sqrt(\<mu> / sma\<^sup>3)\<close>, \<open>p = sma (1 - ecc\<^sup>2)\<close> and \<open>\<Delta>t\<close> is the signed number of seconds
  from the predictor's epoch to the target epoch.
\<close>

theorem J2_propagate_secular_drift:
  assumes "self_class self = J2Predictor"
    and "0 < self_sma self" and "0 \<le> self_ecc self" and "self_ecc self < 1"
    and "0 \<le> MU_E env"
  shows "snd (propagate_eci env self when_utc) =
     (let sma = self_sma self; ecc = self_ecc self; inc = radians (self_inc self);
          delta_t = total_seconds_between when_utc (self_epoch self);
          n = sqrt (MU_E env / sma ^ 3);
          p = sma * (1 - ecc ^ 2);
          raan_rate = - (3 * n * R_E_KM env ^ 2 * J2 env) / (2 * p ^ 2) * cos inc;
          argp_rate = (3 * n * R_E_KM env ^ 2 * J2 env) / (4 * p ^ 2) * (4 - 5 * sin inc ^ 2);
          M0_dot = (3 * n * R_E_KM env ^ 2 * J2 env) / (4 * p ^ 2) * (2 - 3 * sin inc ^ 2)
                     * sqrt (1 - ecc ^ 2);
          M = ta_to_M env (radians (self_ta self)) ecc + (n + M0_dot) * delta_t
      in Inr (coe2rv env (MU_E env) p ecc inc
                (radians (self_raan self) + raan_rate * delta_t)
                (radians (self_argp self) + argp_rate * delta_t)
                (M_to_ta env M ecc)))"
proof -
  have e2: "self_ecc self ^ 2 < 1"
    using assms(3,4) by (rule ecc_sq_less_1)
  then have p: "self_sma self * (1 - self_ecc self ^ 2) \<noteq> 0"
    using assms(2) by simp
  have s: "0 \<le> 1 - self_ecc self ^ 2"
    using e2 by simp
  show ?thesis
    using assms(1)
    by (simp add: propagate_eci_def J2_propagate_eci_def pkepler_def Let_def
        pkepler_n_pos [OF assms(2,5)] pkepler_delta_raan_nz [OF p] pkepler_delta_argp_nz [OF p]
        pkepler_M0_dot_nz [OF p s])
qed

theorem J2_propagate_secular_drift_witness:
  "self_class (sample_predictor 0) = J2Predictor \<and> 0 < self_sma (sample_predictor 0) \<and>
   0 \<le> self_ecc (sample_predictor 0) \<and> self_ecc (sample_predictor 0) < 1 \<and>
   0 \<le> MU_E sample_env \<and>
   snd (propagate_eci sample_env (sample_predictor 0) (sample_epoch\<lparr>day := 21\<rparr>)) =
     (let sma = 6978.137; ecc = 0; inc = arccos sample_x;
          delta_t = 86400;
          n = sqrt (398600.5 / sma ^ 3);
          p = sma * (1 - ecc ^ 2);
          raan_rate = - (3 * n * 6378.137 ^ 2 * 0.00108262998905) / (2 * p ^ 2) * cos inc;
          argp_rate = (3 * n * 6378.137 ^ 2 * 0.00108262998905) / (4 * p ^ 2)
                        * (4 - 5 * sin inc ^ 2);
          M0_dot = (3 * n * 6378.137 ^ 2 * 0.00108262998905) / (4 * p ^ 2)
                     * (2 - 3 * sin inc ^ 2) * sqrt (1 - ecc ^ 2);
          M = 0 + (n + M0_dot) * delta_t
      in Inr (elementsToState 398600.5 p ecc inc (0 + raan_rate * delta_t)
                (0 + argp_rate * delta_t) M))"
proof -
  have a: "self_class (sample_predictor 0) = J2Predictor" "0 < self_sma (sample_predictor 0)"
    "0 \<le> self_ecc (sample_predictor 0)" "self_ecc (sample_predictor 0) < 1"
    by (simp_all add: sample_predictor_def)
  have b: "0 \<le> MU_E sample_env"
    by (simp add: sample_env_simps)
  have c: "coe2rv sample_env = elementsToState" "ta_to_M sample_env = (\<lambda>ta ecc. ta)"
    "M_to_ta sample_env = (\<lambda>M ecc. M)"
    by (simp_all add: sample_env_def)
  have d: "radians (self_inc (sample_predictor 0)) = arccos sample_x"
    "radians (self_raan (sample_predictor 0)) = 0"
    "radians (self_argp (sample_predictor 0)) = 0"
    "radians (self_ta (sample_predictor 0)) = 0"
    "self_sma (sample_predictor 0) = 6978.137" "self_ecc (sample_predictor 0) = 0"
    "self_epoch (sample_predictor 0) = sample_epoch"
    by (simp_all add: sample_predictor_def radians_def degrees_def)
  show ?thesis
    using J2_propagate_secular_drift [OF a b, of "sample_epoch\<lparr>day := 21\<rparr>"] a b
    unfolding d c sample_env_simps sample_delta_t
    by simp
qed


text \<open>
  Claim C4. For a Keplerian predictor with a positive semi-major axis (and a gravitational
  parameter that is not negative), and for every target epoch, later or earlier than the
  predictor's epoch, propagation computes \<open>n = sqrt(\<mu> / sma\<^sup>3)\<close>, converts the stored true
  anomaly to the mean anomaly \<open>M\<^sub>0\<close>, advances it to \<open>M = M\<^sub>0 + n \<Delta>t\<close> with the signed
  number of seconds \<open>\<Delta>t\<close>, converts \<open>M\<close> back to a true anomaly and returns the state
  conversion of it with \<open>p = sma (1 - ecc\<^sup>2)\<close>, the eccentricity, the inclination, the right
  ascension of the ascending node and the argument of perigee as stored.
\<close>

theorem Keplerian_propagate_mean_anomaly:
  assumes "self_class self = KeplerianPredictor"
    and "0 < self_sma self" and "0 \<le> mu (wgs84 env)"
  shows "snd (propagate_eci env self when_utc) =
     (let sma = self_sma self; ecc = self_ecc self;
          delta_t = total_seconds_between when_utc (self_epoch self);
          n = sqrt (mu (wgs84 env) / sma ^ 3);
          M_0 = ta_to_M env (radians (self_ta self)) ecc;
          M = M_0 + n * delta_t
      in Inr (coe2rv env (mu (wgs84 env)) (sma * (1 - ecc ^ 2)) ecc (radians (self_inc self))
                (radians (self_raan self)) (radians (self_argp self)) (M_to_ta env M ecc)))"
  using assms
  by (simp add: propagate_eci_def Keplerian_propagate_eci_def kepler_def Let_def MU_E_def
      py_div_nz math_sqrt_nonneg)

theorem Keplerian_propagate_mean_anomaly_witness:
  "self_class sample_keplerian = KeplerianPredictor \<and> 0 < self_sma sample_keplerian \<and>
   0 \<le> mu (wgs84 sample_env) \<and>
   snd (propagate_eci sample_env sample_keplerian (sample_epoch\<lparr>hour := 11\<rparr>)) =
     Inr (elementsToState 398600.5 7000 0 (radians 45) 0 0
            (sqrt (398600.5 / 7000 ^ 3) * (- 3600)))"
proof -
  have a: "self_class sample_keplerian = KeplerianPredictor" "0 < self_sma sample_keplerian"
    by (simp_all add: sample_keplerian_def)
  have b: "0 \<le> mu (wgs84 sample_env)"
    by (simp add: sample_env_def wgs84_sgp4_def)
  show ?thesis
    using Keplerian_propagate_mean_anomaly [OF a b, of "sample_epoch\<lparr>hour := 11\<rparr>"] a b
    by (simp add: Let_def sample_keplerian_def sample_delta_t radians_def
        sample_env_def wgs84_sgp4_def)
qed

text \<open>
  Claim C5. A predictor the Sun-synchronous solver returns, with a positive semi-major axis
  and an eccentricity that is not negative, satisfies the Sun-synchronism equation: the
  nodal regression rate \<open>-(3 n R\<^sup>2 J2) / (2 p\<^sup>2) cos(inc)\<close> of its orbit, as \<^verbatim>\<open>pkepler\<close>
  computes it, is \<open>OMEGA = 2 \<pi> / (86400 \<cdot> 365.2421897)\<close>. Over the real numbers the two are
  equal, whichever of the three elements was solved for.
\<close>

theorem sun_synchronous_regression_rate:
  assumes "sun_synchronous env alt_km ecc inc_deg ltan_h date ta_deg = Inr pr"
    and "0 < self_sma pr" and "0 \<le> self_ecc pr"
  shows "nodal_regression_rate env pr = Inr OMEGA"
proof -
  from assms(1) obtain sma e i where
    t: "sun_synchronous_try env alt_km ecc inc_deg = Inr (Finite sma, e, i)" and
    e1: "e < 1" and
    f: "self_sma pr = sma" "self_ecc pr = e" "self_inc pr = i"
    by (auto simp: sun_synchronous_eq_Inr)
  from assms(2,3) f have sma: "0 < sma" and e0: "0 \<le> e" by simp_all
  from e0 e1 have "e ^ 2 < 1" by (simp add: power_less_one_iff)
  then have q: "1 - e ^ 2 \<noteq> 0" by simp
  have "0 \<le> MU_E env \<and>
      - 3 * (R_E_KM env ^ 2 * J2 env) * sqrt (MU_E env) * cos (radians i)
         = 2 * OMEGA * sma powr (7 / 2) * (1 - e ^ 2) ^ 2"
    using t
  proof (cases rule: try_Inr_cases)
    case (alt_ecc a e')
    with t show ?thesis by (simp only: rel_alt_ecc)
  next
    case (alt_inc a i')
    with t show ?thesis by (simp only: rel_alt_inc)
  next
    case (ecc_inc e' i')
    with t show ?thesis by (simp only: rel_ecc_inc)
  qed
  then have m: "0 \<le> MU_E env"
    and rel: "- 3 * (R_E_KM env ^ 2 * J2 env) * sqrt (MU_E env) * cos (radians i)
         = 2 * OMEGA * sma powr (7 / 2) * (1 - e ^ 2) ^ 2"
    by blast+
  have q': "1 - self_ecc pr ^ 2 \<noteq> 0" using q f by simp
  have "nodal_regression_rate env pr =
     Inr (- (3 * sqrt (MU_E env / sma ^ 3) * (R_E_KM env ^ 2 * J2 env))
            / (2 * (sma * (1 - e ^ 2)) ^ 2) * cos (radians i) * 1)"
    using nodal_regression_rate_eq [OF assms(2) m q'] unfolding f .
  also have "\<dots> = Inr OMEGA"
    by (simp only: regression_rate_eq_OMEGA [OF sma m q rel])
  finally show ?thesis .
qed

theorem sun_synchronous_regression_rate_witness:
  "sun_synchronous sample_env (Some 600) (Some 0) None 12 None 0 = Inr (sample_predictor 0) \<and>
   0 < self_sma (sample_predictor 0) \<and> 0 \<le> self_ecc (sample_predictor 0) \<and>
   nodal_regression_rate sample_env (sample_predictor 0) = Inr OMEGA"
proof -
  have a: "0 < self_sma (sample_predictor 0)" and b: "0 \<le> self_ecc (sample_predictor 0)"
    by (simp_all add: sample_predictor_def)
  show ?thesis
    using sun_synchronous_regression_rate [OF sample_solution [of 0] a b]
      sample_solution [of 0] a b
    by simp
qed



text \<open>
  Claim C8, as the code has it. No propagation or solve function takes a gravity model
  among its arguments: \<^verbatim>\<open>kepler\<close> reads \<^verbatim>\<open>wgs84.mu\<close> and \<^verbatim>\<open>MU_E\<close>,
  \<^verbatim>\<open>pkepler\<close> and \<^verbatim>\<open>sun_synchronous\<close> read \<^verbatim>\<open>MU_E\<close>, \<^verbatim>\<open>R_E_KM\<close> and
  \<^verbatim>\<open>J2\<close>, all bound at module level. The result of a call is determined by its
  arguments together with these module-level names (and the imported collaborators):
  \<^verbatim>\<open>kepler\<close> by \<open>\<mu>\<close> alone among the gravity constants, \<^verbatim>\<open>pkepler\<close> and the solver's
  closed forms by the three of them.
\<close>

theorem gravity_read_from_module_constants:
  "(mu (wgs84 env) = mu (wgs84 env') \<and> ta_to_M env = ta_to_M env' \<and>
      M_to_ta env = M_to_ta env' \<and> coe2rv env = coe2rv env'
    \<longrightarrow> kepler env argp delta_t_sec ecc inc p raan sma ta
          = kepler env' argp delta_t_sec ecc inc p raan sma ta) \<and>
   (wgs84 env = wgs84 env' \<and> ta_to_M env = ta_to_M env' \<and>
      M_to_ta env = M_to_ta env' \<and> coe2rv env = coe2rv env'
    \<longrightarrow> pkepler env argp delta_t_sec ecc inc p raan sma ta
          = pkepler env' argp delta_t_sec ecc inc p raan sma ta) \<and>
   (wgs84 env = wgs84 env'
    \<longrightarrow> sun_synchronous_try env alt_km ecc_opt inc_deg
          = sun_synchronous_try env' alt_km ecc_opt inc_deg)"
proof (intro conjI impI)
  assume "mu (wgs84 env) = mu (wgs84 env') \<and> ta_to_M env = ta_to_M env' \<and>
      M_to_ta env = M_to_ta env' \<and> coe2rv env = coe2rv env'"
  then show "kepler env argp delta_t_sec ecc inc p raan sma ta
          = kepler env' argp delta_t_sec ecc inc p raan sma ta"
    by (simp add: kepler_def MU_E_def)
next
  assume "wgs84 env = wgs84 env' \<and> ta_to_M env = ta_to_M env' \<and>
      M_to_ta env = M_to_ta env' \<and> coe2rv env = coe2rv env'"
  then show "pkepler env argp delta_t_sec ecc inc p raan sma ta
          = pkepler env' argp delta_t_sec ecc inc p raan sma ta"
    by (simp add: pkepler_def pkepler_n_def pkepler_delta_raan_def pkepler_delta_argp_def
        pkepler_M0_dot_def MU_E_def R_E_KM_def J2_def)
next
  assume w: "wgs84 env = wgs84 env'"
  have c: "MU_E env = MU_E env'" "R_E_KM env = R_E_KM env'" "J2 env = J2 env'"
    by (simp_all add: MU_E_def R_E_KM_def J2_def w)
  show "sun_synchronous_try env alt_km ecc_opt inc_deg
          = sun_synchronous_try env' alt_km ecc_opt inc_deg"
    by (cases "(env, alt_km, ecc_opt, inc_deg)" rule: sun_synchronous_try.cases)
      (simp_all add: c)
qed

theorem gravity_read_from_module_constants_witness:
  "mu (wgs84 sample_env) = mu (wgs84 spherical_env) \<and>
   ta_to_M sample_env = ta_to_M spherical_env \<and> M_to_ta sample_env = M_to_ta spherical_env \<and>
   coe2rv sample_env = coe2rv spherical_env \<and>
   kepler sample_env 0 3600 0 (pi / 4) 7000 0 7000 0
     = kepler spherical_env 0 3600 0 (pi / 4) 7000 0 7000 0"
proof -
  have a: "mu (wgs84 sample_env) = mu (wgs84 spherical_env) \<and>
   ta_to_M sample_env = ta_to_M spherical_env \<and> M_to_ta sample_env = M_to_ta spherical_env \<and>
   coe2rv sample_env = coe2rv spherical_env"
    by (simp add: spherical_env_def sample_env_def wgs84_sgp4_def)
  from a gravity_read_from_module_constants [where env = sample_env and env' = spherical_env]
  show ?thesis by blast
qed

text \<open>The claim as stated fails: the same call of \<^verbatim>\<open>kepler\<close>, with the same arguments,
  gives another velocity when the module-level gravitational parameter is another.\<close>

theorem kepler_result_varies_with_module_gravity:
  "kepler sample_env 0 0 0 0 7000 0 7000 0
     = Inr ((7000, 0, 0), (0, sqrt (398600.5 / 7000), 0)) \<and>
   kepler alternate_env 0 0 0 0 7000 0 7000 0
     = Inr ((7000, 0, 0), (0, 2 * sqrt (398600.5 / 7000), 0)) \<and>
   kepler sample_env 0 0 0 0 7000 0 7000 0 \<noteq> kepler alternate_env 0 0 0 0 7000 0 7000 0"
proof -
  have "sqrt (398600.5 / 7000) \<noteq> 2 * sqrt (398600.5 / (7000::real))"
    by simp
  then show ?thesis
    unfolding kepler_sample kepler_alternate by simp
qed

end
